theory Spec2Isabelle
  imports Main
begin

section \<open>Values of the host language\<close>

text \<open>
  The client is a TypeScript class (\<^verbatim>\<open>src/Skinport.ts\<close>). Strings are modelled by the
  sequence of their UTF-8 bytes (\<^typ>\<open>string\<close>), which is what \<^verbatim>\<open>Buffer.from(s)\<close> reads.
  An optional argument is an \<^typ>\<open>'a option\<close>, \<open>None\<close> standing for \<^verbatim>\<open>undefined\<close>.
\<close>

datatype js_error = Error string

text \<open>A query-parameter value: the option records only hold numbers, strings and booleans.\<close>

datatype jsval = Num int | Str string | Bool bool

text \<open>
  An option object, as it exists at run time: its own keys, in insertion order, with their
  values. The declared option shapes of the operations are compile-time only.
\<close>

type_synonym params = "(string \<times> jsval) list"

text \<open>Truthiness of an optional string: \<^verbatim>\<open>undefined\<close> and the empty string are falsy.\<close>

fun truthy :: "string option \<Rightarrow> bool" where
  "truthy None = False"
| "truthy (Some s) = (s \<noteq> [])"

section \<open>Platform primitives the source calls\<close>

subsection \<open>Base64 (\<^verbatim>\<open>Buffer.prototype.toString('base64')\<close>)\<close>

definition b64chars :: string where
  "b64chars = ''ABCDEFGHIJKLMNOPQRSTUVWXYZabcdefghijklmnopqrstuvwxyz0123456789+/''"

definition b64 :: "nat \<Rightarrow> char" where
  "b64 n = b64chars ! (n mod 64)"

fun base64 :: "string \<Rightarrow> string" where
  "base64 [] = []"
| "base64 [a] =
     (let x = (of_char a :: nat)
      in [b64 (x div 4), b64 ((x mod 4) * 16), CHR ''='', CHR ''=''])"
| "base64 [a, b] =
     (let x = (of_char a :: nat); y = (of_char b :: nat)
      in [b64 (x div 4), b64 ((x mod 4) * 16 + y div 16), b64 ((y mod 16) * 4), CHR ''=''])"
| "base64 (a # b # c # rest) =
     (let x = (of_char a :: nat); y = (of_char b :: nat); z = (of_char c :: nat)
      in b64 (x div 4) # b64 ((x mod 4) * 16 + y div 16) #
         b64 ((y mod 16) * 4 + z div 64) # b64 (z mod 64) # base64 rest)"

subsection \<open>Query strings, as the HTTP client library renders them\<close>

text \<open>
  The HTTP client library is not part of the repository. Its default parameter serialiser
  writes \<^verbatim>\<open>key=value\<close> pairs joined by \<^verbatim>\<open>&\<close>, each side percent-encoded, and appends
  them to the path after a \<^verbatim>\<open>?\<close> when there is at least one pair.
\<close>

definition digit_chars :: string where
  "digit_chars = ''0123456789''"

fun dec :: "nat \<Rightarrow> string" where
  "dec n = (if n < 10 then [digit_chars ! n] else dec (n div 10) @ [digit_chars ! (n mod 10)])"

definition show_int :: "int \<Rightarrow> string" where
  "show_int i = (if i < 0 then CHR ''-'' # dec (nat (- i)) else dec (nat i))"

fun show_jsval :: "jsval \<Rightarrow> string" where
  "show_jsval (Num i) = show_int i"
| "show_jsval (Str s) = s"
| "show_jsval (Bool b) = (if b then ''true'' else ''false'')"

definition hex_chars :: string where
  "hex_chars = ''0123456789ABCDEF''"

definition unescaped :: "char \<Rightarrow> bool" where
  "unescaped c =
     (let n = (of_char c :: nat)
      in (65 \<le> n \<and> n \<le> 90) \<or> (97 \<le> n \<and> n \<le> 122) \<or> (48 \<le> n \<and> n \<le> 57)
         \<or> c \<in> set ''-_.!~*'()'' \<or> c \<in> set '':$,[]'')"

definition encode_char :: "char \<Rightarrow> string" where
  "encode_char c =
     (if unescaped c then [c]
      else if c = CHR '' '' then ''+''
      else (let n = (of_char c :: nat)
            in [CHR ''%'', hex_chars ! (n div 16), hex_chars ! (n mod 16)]))"

definition encode :: "string \<Rightarrow> string" where
  "encode s = concat (map encode_char s)"

fun join_amp :: "string list \<Rightarrow> string" where
  "join_amp [] = []"
| "join_amp [x] = x"
| "join_amp (x # y # xs) = x @ ''&'' @ join_amp (y # xs)"

definition serialize :: "params \<Rightarrow> string" where
  "serialize ps = join_amp (map (\<lambda>(k, v). encode k @ ''='' @ encode (show_jsval v)) ps)"

definition buildURL :: "string \<Rightarrow> params \<Rightarrow> string" where
  "buildURL path ps =
     (let q = serialize ps
      in if q = [] then path
         else path @ (if CHR ''?'' \<in> set path then ''&'' else ''?'') @ q)"

section \<open>The request gateway\<close>

text \<open>
  \<^verbatim>\<open>axios.create({baseURL, headers})\<close> yields an instance holding that configuration. The
  headers are kept as the object literal lists them: keys in order, each with its value.
\<close>

record gateway =
  baseURL :: string
  headers :: "(string \<times> string) list"

record request =
  req_method :: string
  req_baseURL :: string
  req_url :: string
  req_params :: params
  req_headers :: "(string \<times> string) list"

record 'b response =
  status :: nat
  data :: 'b

text \<open>
  The remote side together with the library's status check: for a request it yields either
  the error the returned promise rejects with, or the response.
\<close>

type_synonym 'b http = "request \<Rightarrow> js_error + 'b response"

section \<open>The push channel and promises\<close>

datatype promise_state = Pending | Fulfilled | Rejected js_error

datatype handler = OnConnect nat | OnConnectError nat

datatype parser = MsgpackParser

record io_opts =
  transports :: "string list"
  opt_parser :: parser
  secure :: bool
  rejectUnauthorized :: bool
  reconnection :: bool

record socket_obj =
  sock_url :: string
  sock_opts :: io_opts
  listeners :: "(string \<times> handler) list"

datatype console_entry = Log string | ErrorLog string js_error

text \<open>
  Everything outside the client object: the transport connections \<^verbatim>\<open>io()\<close> has created
  (a connection is referred to by its index), the promises allocated so far, the console,
  and the HTTP requests issued.
\<close>

record world =
  sockets :: "socket_obj list"
  promises :: "promise_state list"
  console :: "console_entry list"
  requests :: "request list"

definition empty_world :: world where
  "empty_world = \<lparr>sockets = [], promises = [], console = [], requests = []\<rparr>"

definition new_promise :: "promise_state \<Rightarrow> world \<Rightarrow> nat \<times> world" where
  "new_promise st w = (length (promises w), w\<lparr>promises := promises w @ [st]\<rparr>)"

text \<open>Settling a promise has an effect only while it is pending.\<close>

definition settle :: "nat \<Rightarrow> promise_state \<Rightarrow> world \<Rightarrow> world" where
  "settle p st w =
     (if p < length (promises w) \<and> promises w ! p = Pending
      then w\<lparr>promises := (promises w)[p := st]\<rparr> else w)"

definition resolve :: "nat \<Rightarrow> world \<Rightarrow> world" where
  "resolve p w = settle p Fulfilled w"

definition reject :: "nat \<Rightarrow> js_error \<Rightarrow> world \<Rightarrow> world" where
  "reject p e w = settle p (Rejected e) w"

definition promise_of :: "world \<Rightarrow> nat \<Rightarrow> promise_state option" where
  "promise_of w p = (if p < length (promises w) then Some (promises w ! p) else None)"

definition io :: "string \<Rightarrow> io_opts \<Rightarrow> world \<Rightarrow> nat \<times> world" where
  "io u opts w =
     (length (sockets w),
      w\<lparr>sockets := sockets w @ [\<lparr>sock_url = u, sock_opts = opts, listeners = []\<rparr>]\<rparr>)"

definition on :: "nat \<Rightarrow> string \<Rightarrow> handler \<Rightarrow> world \<Rightarrow> world" where
  "on s ev h w =
     (if s < length (sockets w)
      then w\<lparr>sockets := (sockets w)[s := (sockets w ! s)\<lparr>listeners := listeners (sockets w ! s) @ [(ev, h)]\<rparr>]\<rparr>
      else w)"

section \<open>The client\<close>

record client =
  api :: gateway
  priv_socket :: "nat option"

text \<open>
  The constructor's header expression
  \<^verbatim>\<open>(clientId && clientSecret) ? `Basic ${Buffer.from(`${clientId}:${clientSecret}`).toString('base64')}` : ""\<close>.
  In the first branch both arguments are strings, which \<open>the\<close> reads.
\<close>

definition authorization :: "string option \<Rightarrow> string option \<Rightarrow> string" where
  "authorization clientId clientSecret =
     (if truthy clientId \<and> truthy clientSecret
      then ''Basic '' @ base64 (the clientId @ '':'' @ the clientSecret)
      else '''')"

definition Skinport :: "string option \<Rightarrow> string option \<Rightarrow> client" where
  "Skinport clientId clientSecret =
     \<lparr>api = \<lparr>baseURL = ''https://api.skinport.com/v1'',
              headers = [(''Authorization'', authorization clientId clientSecret),
                         (''Accept-Encoding'', ''br''),
                         (''Content-Type'', ''application/json'')]\<rparr>,
      priv_socket = None\<rparr>"

subsection \<open>\<^verbatim>\<open>initSocket\<close> and the \<^verbatim>\<open>socket\<close> getter\<close>

definition skinport_opts :: io_opts where
  "skinport_opts =
     \<lparr>transports = [''websocket''], opt_parser = MsgpackParser, secure = True,
      rejectUnauthorized = False, reconnection = True\<rparr>"

text \<open>
  A call runs to its \<^verbatim>\<open>return\<close> without interruption (the executor of
  \<^verbatim>\<open>new Promise\<close> runs synchronously), so it is one function from the state before to the
  state after, together with the promise the caller receives. When the field is already
  set, the \<^verbatim>\<open>async\<close> function returns at once and its promise is fulfilled; otherwise the
  caller's promise follows the one built around the connection, and both are the same
  promise here.
\<close>

definition initSocket :: "client \<Rightarrow> world \<Rightarrow> nat \<times> client \<times> world" where
  "initSocket c w =
     (case priv_socket c of
        Some s \<Rightarrow> (let (p, w1) = new_promise Fulfilled w in (p, c, w1))
      | None \<Rightarrow>
          (let (p, w1) = new_promise Pending w;
               (s, w2) = io ''wss://skinport.com'' skinport_opts w1;
               c1 = c\<lparr>priv_socket := Some s\<rparr>;
               w3 = on s ''connect'' (OnConnect p) w2;
               w4 = on s ''connect_error'' (OnConnectError p) w3
           in (p, c1, w4)))"

definition not_initialized :: js_error where
  "not_initialized = Error ''Socket not initialized. Call `initSocket()` first.''"

definition socket :: "client \<Rightarrow> js_error + nat" where
  "socket c = (case priv_socket c of None \<Rightarrow> Inl not_initialized | Some s \<Rightarrow> Inr s)"

subsection \<open>Signals of the transport\<close>

text \<open>
  The transport emits \<^verbatim>\<open>connect\<close> (no argument) or \<^verbatim>\<open>connect_error\<close> (with the error)
  on a connection; every listener registered for that event on that connection runs, in
  the order of registration. A listener runs only for the event it is registered for, so
  the last equation of \<open>run_handler\<close> is never used by \<open>emit\<close>.
\<close>

datatype signal = Connect | ConnectError js_error

fun event_name :: "signal \<Rightarrow> string" where
  "event_name Connect = ''connect''"
| "event_name (ConnectError e) = ''connect_error''"

fun run_handler :: "handler \<Rightarrow> signal \<Rightarrow> world \<Rightarrow> world" where
  "run_handler (OnConnect p) sg w =
     resolve p (w\<lparr>console := console w @ [Log ''Connected to Skinport WebSocket'']\<rparr>)"
| "run_handler (OnConnectError p) (ConnectError e) w =
     reject p e (w\<lparr>console := console w @ [ErrorLog ''Connection Error:'' e]\<rparr>)"
| "run_handler (OnConnectError p) Connect w = w"

fun run_handlers :: "(string \<times> handler) list \<Rightarrow> signal \<Rightarrow> world \<Rightarrow> world" where
  "run_handlers [] sg w = w"
| "run_handlers ((ev, h) # hs) sg w =
     run_handlers hs sg (if ev = event_name sg then run_handler h sg w else w)"

definition emit :: "nat \<Rightarrow> signal \<Rightarrow> world \<Rightarrow> world" where
  "emit s sg w =
     (if s < length (sockets w) then run_handlers (listeners (sockets w ! s)) sg w else w)"

subsection \<open>Marketplace operations\<close>

text \<open>
  \<^verbatim>\<open>api.get(path, {params})\<close>: one request with the instance's base URL and headers, the
  given path and parameters; the outcome is what the remote side answers to it.
\<close>

definition get_request :: "gateway \<Rightarrow> string \<Rightarrow> params \<Rightarrow> request" where
  "get_request g path ps =
     \<lparr>req_method = ''GET'', req_baseURL = baseURL g, req_url = path,
      req_params = ps, req_headers = headers g\<rparr>"

definition api_get ::
  "gateway \<Rightarrow> 'b http \<Rightarrow> string \<Rightarrow> params \<Rightarrow> world \<Rightarrow> (js_error + 'b response) \<times> world" where
  "api_get g http path ps w =
     (let r = get_request g path ps
      in (http r, w\<lparr>requests := requests w @ [r]\<rparr>))"

text \<open>\<^verbatim>\<open>(await ...).data\<close>: a rejection propagates, a response yields its \<^verbatim>\<open>data\<close>.\<close>

definition await_data :: "(js_error + 'b response) \<times> world \<Rightarrow> (js_error + 'b) \<times> world" where
  "await_data rw = (case fst rw of Inl e \<Rightarrow> (Inl e, snd rw) | Inr r \<Rightarrow> (Inr (data r), snd rw))"

text \<open>\<^verbatim>\<open>getItems\<close> has the default argument \<^verbatim>\<open>{}\<close>, used when the caller passes none.\<close>

definition getItems :: "client \<Rightarrow> 'b http \<Rightarrow> params option \<Rightarrow> world \<Rightarrow> (js_error + 'b) \<times> world" where
  "getItems c http options w =
     await_data (api_get (api c) http ''/items'' (case options of None \<Rightarrow> [] | Some ps \<Rightarrow> ps) w)"

definition getSalesHistory :: "client \<Rightarrow> 'b http \<Rightarrow> params \<Rightarrow> world \<Rightarrow> (js_error + 'b) \<times> world" where
  "getSalesHistory c http options w =
     await_data (api_get (api c) http ''/sales/history'' options w)"

definition getOutOfStock :: "client \<Rightarrow> 'b http \<Rightarrow> params \<Rightarrow> world \<Rightarrow> (js_error + 'b) \<times> world" where
  "getOutOfStock c http options w =
     await_data (api_get (api c) http ''/sales/out-of-stock'' options w)"

definition getTransactions :: "client \<Rightarrow> 'b http \<Rightarrow> params \<Rightarrow> world \<Rightarrow> (js_error + 'b) \<times> world" where
  "getTransactions c http options w =
     await_data (api_get (api c) http ''/account/transactions'' options w)"

text \<open>The request line of a request: its path followed by the rendered parameters.\<close>

definition target :: "request \<Rightarrow> string" where
  "target r = buildURL (req_url r) (req_params r)"

section \<open>Histories of a client\<close>

text \<open>
  What can happen to a client after construction: a call of one of its methods, a read of
  the \<^verbatim>\<open>socket\<close> property, or a signal of the transport on some connection. Calls and
  signals interleave in any order; each runs to completion before the next.
\<close>

datatype action =
    CallInitSocket
  | ReadSocket
  | CallGetItems "params option"
  | CallGetSalesHistory params
  | CallGetOutOfStock params
  | CallGetTransactions params
  | Signal nat signal

fun step :: "'b http \<Rightarrow> client \<times> world \<Rightarrow> action \<Rightarrow> client \<times> world" where
  "step http (c, w) CallInitSocket = snd (initSocket c w)"
| "step http (c, w) ReadSocket = (c, w)"
| "step http (c, w) (CallGetItems options) = (c, snd (getItems c http options w))"
| "step http (c, w) (CallGetSalesHistory options) = (c, snd (getSalesHistory c http options w))"
| "step http (c, w) (CallGetOutOfStock options) = (c, snd (getOutOfStock c http options w))"
| "step http (c, w) (CallGetTransactions options) = (c, snd (getTransactions c http options w))"
| "step http (c, w) (Signal s sg) = (c, emit s sg w)"

definition run :: "'b http \<Rightarrow> client \<times> world \<Rightarrow> action list \<Rightarrow> client \<times> world" where
  "run http st acts = foldl (step http) st acts"

text \<open>How many connections the client may still create: one until the field is set.\<close>

definition unset :: "client \<Rightarrow> nat" where
  "unset c = (case priv_socket c of None \<Rightarrow> 1 | Some s \<Rightarrow> 0)"

subsection \<open>Two remote sides to run the operations against\<close>

text \<open>One that fails every request, and one that answers every request with its own path.\<close>

definition offline :: "unit http" where
  "offline r = Inl (Error ''offline'')"

definition echo :: "string http" where
  "echo r = Inr \<lparr>status = 200, data = req_url r\<rparr>"

section \<open>Frame lemmas\<close>

lemma sockets_settle: "sockets (settle p st w) = sockets w"
  by (simp add: settle_def)

lemma requests_settle: "requests (settle p st w) = requests w"
  by (simp add: settle_def)

lemma promise_of_settle_kept:
  "promise_of w p = Some st \<Longrightarrow> st \<noteq> Pending \<Longrightarrow> promise_of (settle q st' w) p = Some st"
  by (auto simp: promise_of_def settle_def nth_list_update split: if_splits)

lemma sockets_run_handler: "sockets (run_handler h sg w) = sockets w"
  by (cases "(h, sg, w)" rule: run_handler.cases) (simp_all add: resolve_def reject_def sockets_settle)

lemma requests_run_handler: "requests (run_handler h sg w) = requests w"
  by (cases "(h, sg, w)" rule: run_handler.cases) (simp_all add: resolve_def reject_def requests_settle)

lemma promise_of_console [simp]: "promise_of (w\<lparr>console := x\<rparr>) p = promise_of w p"
  by (simp add: promise_of_def)

lemma promise_of_requests [simp]: "promise_of (w\<lparr>requests := x\<rparr>) p = promise_of w p"
  by (simp add: promise_of_def)

lemma promise_of_sockets [simp]: "promise_of (w\<lparr>sockets := x\<rparr>) p = promise_of w p"
  by (simp add: promise_of_def)

lemma promise_of_run_handler_kept:
  "promise_of w p = Some st \<Longrightarrow> st \<noteq> Pending \<Longrightarrow> promise_of (run_handler h sg w) p = Some st"
  by (cases "(h, sg, w)" rule: run_handler.cases)
     (simp_all add: resolve_def reject_def promise_of_settle_kept)

lemma sockets_run_handlers: "sockets (run_handlers hs sg w) = sockets w"
  by (induction hs sg w rule: run_handlers.induct) (simp_all add: sockets_run_handler)

lemma requests_run_handlers: "requests (run_handlers hs sg w) = requests w"
  by (induction hs sg w rule: run_handlers.induct) (simp_all add: requests_run_handler)

lemma promise_of_run_handlers_kept:
  "promise_of w p = Some st \<Longrightarrow> st \<noteq> Pending \<Longrightarrow> promise_of (run_handlers hs sg w) p = Some st"
  by (induction hs sg w rule: run_handlers.induct) (simp_all add: promise_of_run_handler_kept)

lemma sockets_emit: "sockets (emit s sg w) = sockets w"
  by (simp add: emit_def sockets_run_handlers)

lemma requests_emit: "requests (emit s sg w) = requests w"
  by (simp add: emit_def requests_run_handlers)

lemma promise_of_emit_kept:
  "promise_of w p = Some st \<Longrightarrow> st \<noteq> Pending \<Longrightarrow> promise_of (emit s sg w) p = Some st"
  by (simp add: emit_def promise_of_run_handlers_kept)

lemma snd_api_get:
  "snd (api_get g http path ps w) = w\<lparr>requests := requests w @ [get_request g path ps]\<rparr>"
  by (simp add: api_get_def Let_def)

lemma snd_await_data: "snd (await_data rw) = snd rw"
  by (simp add: await_data_def split: sum.splits)

lemmas snd_ops = getItems_def getSalesHistory_def getOutOfStock_def getTransactions_def
  snd_await_data snd_api_get

lemma initSocket_Some:
  "priv_socket c = Some s \<Longrightarrow>
   initSocket c w = (length (promises w), c, w\<lparr>promises := promises w @ [Fulfilled]\<rparr>)"
  by (simp add: initSocket_def new_promise_def)

lemma initSocket_None:
  "priv_socket c = None \<Longrightarrow>
   initSocket c w =
     (length (promises w), c\<lparr>priv_socket := Some (length (sockets w))\<rparr>,
      w\<lparr>promises := promises w @ [Pending],
        sockets := sockets w @
          [\<lparr>sock_url = ''wss://skinport.com'', sock_opts = skinport_opts,
            listeners = [(''connect'', OnConnect (length (promises w))),
                         (''connect_error'', OnConnectError (length (promises w)))]\<rparr>]\<rparr>)"
  by (simp add: initSocket_def new_promise_def io_def on_def Let_def)

lemma step_api: "api (fst (step http st a)) = api (fst st)"
  by (cases "(http, st, a)" rule: step.cases)
     (auto simp: initSocket_def new_promise_def io_def Let_def split: option.splits prod.splits)

lemma run_api: "api (fst (run http st acts)) = api (fst st)"
  unfolding run_def by (induction acts arbitrary: st) (simp_all add: step_api)

lemma step_priv_socket_kept:
  "priv_socket (fst st) = Some s \<Longrightarrow> priv_socket (fst (step http st a)) = Some s"
  by (cases "(http, st, a)" rule: step.cases) (simp_all add: initSocket_Some)

lemma run_priv_socket_kept:
  "priv_socket (fst st) = Some s \<Longrightarrow> priv_socket (fst (run http st acts)) = Some s"
  unfolding run_def by (induction acts arbitrary: st) (simp_all add: step_priv_socket_kept)

lemma step_created:
  "length (sockets (snd (step http st a))) + unset (fst (step http st a))
   = length (sockets (snd st)) + unset (fst st)"
proof (cases "(http, st, a)" rule: step.cases)
  case (1 h c w)
  then show ?thesis
    by (cases "priv_socket c") (simp_all add: initSocket_Some initSocket_None unset_def)
qed (simp_all add: snd_ops sockets_emit)

lemma run_created:
  "length (sockets (snd (run http st acts))) + unset (fst (run http st acts))
   = length (sockets (snd st)) + unset (fst st)"
  unfolding run_def by (induction acts arbitrary: st) (simp_all add: step_created)

lemma step_promise_kept:
  "promise_of (snd st) p = Some x \<Longrightarrow> x \<noteq> Pending \<Longrightarrow>
   promise_of (snd (step http st a)) p = Some x"
proof (cases "(http, st, a)" rule: step.cases)
  case (1 h c w)
  then show "promise_of (snd st) p = Some x \<Longrightarrow> x \<noteq> Pending \<Longrightarrow> ?thesis"
    by (cases "priv_socket c")
       (auto simp: initSocket_Some initSocket_None promise_of_def nth_append split: if_splits)
qed (simp_all add: snd_ops promise_of_emit_kept)

lemma run_promise_kept:
  "promise_of (snd st) p = Some x \<Longrightarrow> x \<noteq> Pending \<Longrightarrow>
   promise_of (snd (run http st acts)) p = Some x"
  unfolding run_def by (induction acts arbitrary: st) (simp_all add: step_promise_kept)

lemma step_priv_socket_None:
  "priv_socket (fst (step http st a)) = None \<longleftrightarrow> priv_socket (fst st) = None \<and> a \<noteq> CallInitSocket"
proof (cases "(http, st, a)" rule: step.cases)
  case (1 h c w)
  then show ?thesis
    by (cases "priv_socket c") (simp_all add: initSocket_Some initSocket_None)
qed simp_all

lemma run_priv_socket_None:
  "priv_socket (fst (run http st acts)) = None \<longleftrightarrow>
   priv_socket (fst st) = None \<and> CallInitSocket \<notin> set acts"
  unfolding run_def
  by (induction acts arbitrary: st) (auto simp: step_priv_socket_None)

lemma emit_Connect_after_initSocket:
  assumes "priv_socket c = None"
  shows "promise_of (emit (length (sockets w)) Connect (snd (snd (initSocket c w))))
           (fst (initSocket c w)) = Some Fulfilled"
  by (simp add: initSocket_None [OF assms] emit_def resolve_def settle_def promise_of_def
      nth_append)

lemma emit_ConnectError_after_initSocket:
  assumes "priv_socket c = None"
  shows "promise_of (emit (length (sockets w)) (ConnectError e) (snd (snd (initSocket c w))))
           (fst (initSocket c w)) = Some (Rejected e)"
  by (simp add: initSocket_None [OF assms] emit_def reject_def settle_def promise_of_def
      nth_append)

lemma step_sockets_kept:
  "priv_socket (fst st) = Some s \<Longrightarrow> sockets (snd (step http st a)) = sockets (snd st)"
  by (cases "(http, st, a)" rule: step.cases)
     (simp_all add: initSocket_Some snd_ops sockets_emit)

lemma run_sockets_kept:
  "priv_socket (fst st) = Some s \<Longrightarrow> sockets (snd (run http st acts)) = sockets (snd st)"
  unfolding run_def
  by (induction acts arbitrary: st) (simp_all add: step_sockets_kept step_priv_socket_kept)

lemma requests_initSocket: "requests (snd (snd (initSocket c w))) = requests w"
  by (cases "priv_socket c") (simp_all add: initSocket_Some initSocket_None)

lemma step_requests_headers:
  assumes "list_all (\<lambda>r. req_headers r = headers (api (fst st))) (requests (snd st))"
  shows "list_all (\<lambda>r. req_headers r = headers (api (fst st))) (requests (snd (step http st a)))"
  using assms
  by (cases "(http, st, a)" rule: step.cases)
     (simp_all add: requests_initSocket snd_ops requests_emit get_request_def)

lemma run_requests_headers:
  "list_all (\<lambda>r. req_headers r = headers (api (fst st))) (requests (snd st)) \<Longrightarrow>
   list_all (\<lambda>r. req_headers r = headers (api (fst st))) (requests (snd (run http st acts)))"
  unfolding run_def
proof (induction acts arbitrary: st)
  case Nil
  then show ?case by simp
next
  case (Cons a acts)
  have "list_all (\<lambda>r. req_headers r = headers (api (fst (step http st a))))
          (requests (snd (step http st a)))"
    using step_requests_headers [OF Cons.prems, of http a] by (simp add: step_api)
  from Cons.IH [OF this] show ?case by (simp add: step_api)
qed

lemma authorization_Skinport:
  "map_of (headers (api (Skinport clientId clientSecret))) ''Authorization''
     = Some (authorization clientId clientSecret)"
  by (simp add: Skinport_def)

section \<open>The push channel\<close>

text \<open>
  Claim C1. Over every history of a client (calls and transport signals in any order, so
  also calls of \<^verbatim>\<open>initSocket\<close> that overlap a handshake still in flight), at most one
  transport connection is created. A call of \<^verbatim>\<open>initSocket\<close> that finds the field set
  returns a promise that is already fulfilled, leaves the client as it is and creates no
  connection; from such a state no history creates one.
\<close>

theorem initSocket_single_connection:
  "length (sockets (snd (run http (c, w) acts))) \<le> length (sockets w) + 1
   \<and> (priv_socket c = Some s \<longrightarrow>
        initSocket c w = (length (promises w), c, w\<lparr>promises := promises w @ [Fulfilled]\<rparr>)
        \<and> sockets (snd (snd (initSocket c w))) = sockets w
        \<and> length (sockets (snd (run http (c, w) acts))) = length (sockets w))"
proof -
  have eq: "length (sockets (snd (run http (c, w) acts))) + unset (fst (run http (c, w) acts))
        = length (sockets w) + unset c"
    using run_created [of http "(c, w)" acts] by simp
  have le: "unset c \<le> 1"
    by (simp add: unset_def split: option.splits)
  have a: "length (sockets (snd (run http (c, w) acts))) \<le> length (sockets w) + 1"
    using eq le by linarith
  have b: "length (sockets (snd (run http (c, w) acts))) = length (sockets w)"
    if h: "priv_socket c = Some s"
  proof -
    have "priv_socket (fst (run http (c, w) acts)) = Some s"
      using run_priv_socket_kept [of "(c, w)" s http acts] h by simp
    then show ?thesis using eq h by (simp add: unset_def)
  qed
  show ?thesis using a b by (simp add: initSocket_Some)
qed

theorem initSocket_single_connection_witness:
  "length (sockets (snd (run offline (Skinport None None, empty_world)
       [CallInitSocket, CallInitSocket, Signal 0 Connect, CallInitSocket]))) \<le> 1
   \<and> priv_socket (fst (snd (initSocket (Skinport None None) empty_world))) = Some 0
   \<and> length (sockets (snd (snd (initSocket (Skinport None None) empty_world)))) = 1
   \<and> length (sockets (snd (run offline (snd (initSocket (Skinport None None) empty_world))
       [CallInitSocket, Signal 0 Connect, CallInitSocket]))) = 1"
proof -
  have p: "priv_socket (Skinport None None) = None"
    by (simp add: Skinport_def)
  have i: "snd (initSocket (Skinport None None) empty_world) =
           (fst (snd (initSocket (Skinport None None) empty_world)),
            snd (snd (initSocket (Skinport None None) empty_world)))"
    by simp
  have s: "priv_socket (fst (snd (initSocket (Skinport None None) empty_world))) = Some 0"
    by (simp add: initSocket_None [OF p] empty_world_def)
  have l: "length (sockets (snd (snd (initSocket (Skinport None None) empty_world)))) = 1"
    by (simp add: initSocket_None [OF p] empty_world_def)
  show ?thesis
    using initSocket_single_connection [of offline "Skinport None None" empty_world
        "[CallInitSocket, CallInitSocket, Signal 0 Connect, CallInitSocket]" 0]
      initSocket_single_connection [of offline
        "fst (snd (initSocket (Skinport None None) empty_world))"
        "snd (snd (initSocket (Skinport None None) empty_world))"
        "[CallInitSocket, Signal 0 Connect, CallInitSocket]" 0]
      s l
    by (simp add: empty_world_def)
qed

text \<open>
  Claim C2. A call of \<^verbatim>\<open>initSocket\<close> on a client whose field is unset creates the
  connection (the next index of the world) and assigns it; the promise it returns is new
  and pending. When the transport then signals \<^verbatim>\<open>connect\<close> on that connection the promise
  is fulfilled, and it stays fulfilled over every later history (later \<^verbatim>\<open>connect\<close> or
  \<^verbatim>\<open>connect_error\<close> signals settle nothing: it is settled once). From the call on, the
  \<^verbatim>\<open>socket\<close> getter returns the connection.
\<close>

theorem initSocket_connect_success:
  assumes "priv_socket c = None" and "initSocket c w = (p, c1, w1)"
  shows "priv_socket c1 = Some (length (sockets w))
     \<and> length (sockets w1) = length (sockets w) + 1
     \<and> promise_of w p = None
     \<and> promise_of w1 p = Some Pending
     \<and> promise_of (emit (length (sockets w)) Connect w1) p = Some Fulfilled
     \<and> promise_of (snd (run http (c1, emit (length (sockets w)) Connect w1) acts)) p
         = Some Fulfilled
     \<and> socket c1 = Inr (length (sockets w))
     \<and> socket (fst (run http (c1, emit (length (sockets w)) Connect w1) acts))
         = Inr (length (sockets w))"
proof -
  have c1: "priv_socket c1 = Some (length (sockets w))"
    and l: "length (sockets w1) = length (sockets w) + 1"
    and p0: "promise_of w p = None"
    and p1: "promise_of w1 p = Some Pending"
    using assms(2) by (auto simp: initSocket_None [OF assms(1)] promise_of_def)
  have f: "promise_of (emit (length (sockets w)) Connect w1) p = Some Fulfilled"
    using emit_Connect_after_initSocket [OF assms(1), of w] assms(2) by simp
  have k: "promise_of (snd (run http (c1, emit (length (sockets w)) Connect w1) acts)) p
         = Some Fulfilled"
    using run_promise_kept [of "(c1, emit (length (sockets w)) Connect w1)" p Fulfilled http acts] f
    by simp
  have s: "priv_socket (fst (run http (c1, emit (length (sockets w)) Connect w1) acts))
         = Some (length (sockets w))"
    using run_priv_socket_kept [of "(c1, emit (length (sockets w)) Connect w1)" _ http acts] c1
    by simp
  show ?thesis using c1 l p0 p1 f k s by (simp add: socket_def)
qed

theorem initSocket_connect_success_witness:
  "priv_socket (Skinport None None) = None
   \<and> initSocket (Skinport None None) empty_world
       = (0, (Skinport None None)\<lparr>priv_socket := Some 0\<rparr>,
          \<lparr>sockets = [\<lparr>sock_url = ''wss://skinport.com'', sock_opts = skinport_opts,
                       listeners = [(''connect'', OnConnect 0),
                                    (''connect_error'', OnConnectError 0)]\<rparr>],
           promises = [Pending], console = [], requests = []\<rparr>)
   \<and> promise_of (snd (run offline (snd (initSocket (Skinport None None) empty_world))
        [Signal 0 Connect, Signal 0 (ConnectError (Error ''late'')), Signal 0 Connect,
         CallInitSocket])) 0 = Some Fulfilled
   \<and> socket (fst (run offline (snd (initSocket (Skinport None None) empty_world))
        [Signal 0 Connect, Signal 0 (ConnectError (Error ''late'')), Signal 0 Connect,
         CallInitSocket])) = Inr 0"
proof -
  have p: "priv_socket (Skinport None None) = None"
    by (simp add: Skinport_def)
  have i: "initSocket (Skinport None None) empty_world
       = (0, (Skinport None None)\<lparr>priv_socket := Some 0\<rparr>,
          \<lparr>sockets = [\<lparr>sock_url = ''wss://skinport.com'', sock_opts = skinport_opts,
                       listeners = [(''connect'', OnConnect 0),
                                    (''connect_error'', OnConnectError 0)]\<rparr>],
           promises = [Pending], console = [], requests = []\<rparr>)"
    by (simp add: initSocket_None [OF p] empty_world_def)
  show ?thesis
    using initSocket_connect_success [OF p i, of offline
        "[Signal 0 (ConnectError (Error ''late'')), Signal 0 Connect, CallInitSocket]"] p i
    by (simp add: run_def empty_world_def)
qed

text \<open>
  Claim C3. After the same call, when the transport signals \<^verbatim>\<open>connect_error\<close> with an
  error, the promise is rejected with that error and stays so over every later history;
  the field keeps the connection; and a later call of \<^verbatim>\<open>initSocket\<close> returns a promise
  that is already fulfilled, with the client and the connections (their listeners
  included) unchanged: no new handshake is started.
\<close>

theorem initSocket_connect_error:
  assumes "priv_socket c = None" and "initSocket c w = (p, c1, w1)"
    and "run http (c1, emit (length (sockets w)) (ConnectError e) w1) acts = (c2, w2)"
  shows "promise_of w1 p = Some Pending
     \<and> promise_of (emit (length (sockets w)) (ConnectError e) w1) p = Some (Rejected e)
     \<and> promise_of w2 p = Some (Rejected e)
     \<and> priv_socket c1 = Some (length (sockets w))
     \<and> priv_socket c2 = Some (length (sockets w))
     \<and> initSocket c2 w2 = (length (promises w2), c2, w2\<lparr>promises := promises w2 @ [Fulfilled]\<rparr>)
     \<and> sockets w2 = sockets w1"
proof -
  have c1: "priv_socket c1 = Some (length (sockets w))"
    and p1: "promise_of w1 p = Some Pending"
    using assms(2) by (auto simp: initSocket_None [OF assms(1)] promise_of_def)
  have f: "promise_of (emit (length (sockets w)) (ConnectError e) w1) p = Some (Rejected e)"
    using emit_ConnectError_after_initSocket [OF assms(1), of w e] assms(2) by simp
  have k: "promise_of w2 p = Some (Rejected e)"
    using run_promise_kept
      [of "(c1, emit (length (sockets w)) (ConnectError e) w1)" p "Rejected e" http acts]
      f assms(3)
    by simp
  have s: "priv_socket c2 = Some (length (sockets w))"
    using run_priv_socket_kept
      [of "(c1, emit (length (sockets w)) (ConnectError e) w1)" _ http acts] c1 assms(3)
    by simp
  have t: "sockets w2 = sockets w1"
    using run_sockets_kept
      [of "(c1, emit (length (sockets w)) (ConnectError e) w1)" _ http acts] c1 assms(3)
    by (simp add: sockets_emit)
  show ?thesis using c1 p1 f k s t by (simp add: initSocket_Some)
qed

theorem initSocket_connect_error_witness:
  "priv_socket (Skinport None None) = None
   \<and> initSocket (Skinport None None) empty_world
       = (0, (Skinport None None)\<lparr>priv_socket := Some 0\<rparr>,
          \<lparr>sockets = [\<lparr>sock_url = ''wss://skinport.com'', sock_opts = skinport_opts,
                       listeners = [(''connect'', OnConnect 0),
                                    (''connect_error'', OnConnectError 0)]\<rparr>],
           promises = [Pending], console = [], requests = []\<rparr>)
   \<and> promise_of (snd (run offline
        ((Skinport None None)\<lparr>priv_socket := Some 0\<rparr>,
         emit 0 (ConnectError (Error ''timeout''))
           (snd (snd (initSocket (Skinport None None) empty_world))))
        [Signal 0 Connect, CallInitSocket])) 0 = Some (Rejected (Error ''timeout''))
   \<and> length (sockets (snd (run offline
        ((Skinport None None)\<lparr>priv_socket := Some 0\<rparr>,
         emit 0 (ConnectError (Error ''timeout''))
           (snd (snd (initSocket (Skinport None None) empty_world))))
        [Signal 0 Connect, CallInitSocket]))) = 1"
proof -
  have p: "priv_socket (Skinport None None) = None"
    by (simp add: Skinport_def)
  have i: "initSocket (Skinport None None) empty_world
       = (0, (Skinport None None)\<lparr>priv_socket := Some 0\<rparr>,
          \<lparr>sockets = [\<lparr>sock_url = ''wss://skinport.com'', sock_opts = skinport_opts,
                       listeners = [(''connect'', OnConnect 0),
                                    (''connect_error'', OnConnectError 0)]\<rparr>],
           promises = [Pending], console = [], requests = []\<rparr>)"
    by (simp add: initSocket_None [OF p] empty_world_def)
  have r: "run offline
        ((Skinport None None)\<lparr>priv_socket := Some 0\<rparr>,
         emit (length (sockets empty_world)) (ConnectError (Error ''timeout''))
           \<lparr>sockets = [\<lparr>sock_url = ''wss://skinport.com'', sock_opts = skinport_opts,
                       listeners = [(''connect'', OnConnect 0),
                                    (''connect_error'', OnConnectError 0)]\<rparr>],
           promises = [Pending], console = [], requests = []\<rparr>)
        [Signal 0 Connect, CallInitSocket]
      = (fst (run offline
        ((Skinport None None)\<lparr>priv_socket := Some 0\<rparr>,
         emit 0 (ConnectError (Error ''timeout''))
           (snd (snd (initSocket (Skinport None None) empty_world))))
        [Signal 0 Connect, CallInitSocket]),
         snd (run offline
        ((Skinport None None)\<lparr>priv_socket := Some 0\<rparr>,
         emit 0 (ConnectError (Error ''timeout''))
           (snd (snd (initSocket (Skinport None None) empty_world))))
        [Signal 0 Connect, CallInitSocket]))"
    by (simp add: i) (simp add: empty_world_def)
  show ?thesis
    using initSocket_connect_error [OF p i r] p i
    by simp
qed

text \<open>
  Claim C4. The \<^verbatim>\<open>socket\<close> getter is a function of the client alone. While the field is
  unset it yields the error \<^verbatim>\<open>Socket not initialized. Call `initSocket()` first.\<close>; this
  is the case after every history of a fresh client without a call of \<^verbatim>\<open>initSocket\<close>.
  Once the field is set it yields the connection, also while the promise of the call that
  created it is still pending.
\<close>

theorem socket_guard:
  "(priv_socket c = None \<longrightarrow>
      socket c = Inl (Error ''Socket not initialized. Call `initSocket()` first.''))
   \<and> (CallInitSocket \<notin> set acts \<longrightarrow>
      socket (fst (run http (Skinport clientId clientSecret, w) acts))
        = Inl (Error ''Socket not initialized. Call `initSocket()` first.''))
   \<and> (priv_socket c = Some s \<longrightarrow> socket c = Inr s)
   \<and> (priv_socket c = None \<longrightarrow>
      socket (fst (snd (initSocket c w))) = Inr (length (sockets w))
      \<and> promise_of (snd (snd (initSocket c w))) (fst (initSocket c w)) = Some Pending)"
proof -
  have n: "priv_socket (fst (run http (Skinport clientId clientSecret, w) acts)) = None"
    if "CallInitSocket \<notin> set acts"
    using that run_priv_socket_None [of http "(Skinport clientId clientSecret, w)" acts]
    by (simp add: Skinport_def)
  have i: "socket (fst (snd (initSocket c w))) = Inr (length (sockets w))
      \<and> promise_of (snd (snd (initSocket c w))) (fst (initSocket c w)) = Some Pending"
    if "priv_socket c = None"
    by (simp add: initSocket_None [OF that] socket_def promise_of_def)
  show ?thesis
    using n i by (auto simp: socket_def not_initialized_def)
qed

theorem socket_guard_witness:
  "priv_socket (Skinport (Some ''id'') (Some ''secret'')) = None
   \<and> socket (Skinport (Some ''id'') (Some ''secret''))
       = Inl (Error ''Socket not initialized. Call `initSocket()` first.'')
   \<and> CallInitSocket \<notin> set [ReadSocket, Signal 0 Connect, CallGetItems None, ReadSocket]
   \<and> socket (fst (run offline (Skinport (Some ''id'') (Some ''secret''), empty_world)
        [ReadSocket, Signal 0 Connect, CallGetItems None, ReadSocket]))
       = Inl (Error ''Socket not initialized. Call `initSocket()` first.'')
   \<and> priv_socket (fst (snd (initSocket (Skinport None None) empty_world))) = Some 0
   \<and> socket (fst (snd (initSocket (Skinport None None) empty_world))) = Inr 0
   \<and> socket (fst (snd (initSocket (Skinport (Some ''id'') (Some ''secret'')) empty_world)))
       = Inr 0
   \<and> promise_of (snd (snd (initSocket (Skinport (Some ''id'') (Some ''secret'')) empty_world)))
       (fst (initSocket (Skinport (Some ''id'') (Some ''secret'')) empty_world)) = Some Pending"
proof -
  have p: "priv_socket (Skinport (Some ''id'') (Some ''secret'')) = None"
    by (simp add: Skinport_def)
  have a: "CallInitSocket \<notin> set [ReadSocket, Signal 0 Connect, CallGetItems None, ReadSocket]"
    by simp
  have q: "priv_socket (fst (snd (initSocket (Skinport None None) empty_world))) = Some 0"
    by (simp add: initSocket_def new_promise_def io_def on_def Skinport_def empty_world_def)
  show ?thesis
    using socket_guard [of "Skinport (Some ''id'') (Some ''secret'')"
        "[ReadSocket, Signal 0 Connect, CallGetItems None, ReadSocket]" offline
        "Some ''id''" "Some ''secret''" empty_world 0]
      socket_guard [of "fst (snd (initSocket (Skinport None None) empty_world))" "[]" offline
        None None empty_world 0] p a q
    by (simp add: empty_world_def)
qed

text \<open>
  Claim C10. After a call of \<^verbatim>\<open>initSocket\<close> the field holds a connection, and over every
  later history (whatever the transport signals) it holds that same connection, so the
  \<^verbatim>\<open>socket\<close> getter returns it and does not throw. The same holds from every state in
  which the field is set.
\<close>

theorem socket_assignment_monotone:
  "(\<exists>s. priv_socket (fst (snd (initSocket c w))) = Some s
        \<and> priv_socket (fst (run http (snd (initSocket c w)) acts)) = Some s
        \<and> socket (fst (run http (snd (initSocket c w)) acts)) = Inr s)
   \<and> (priv_socket c = Some s0 \<longrightarrow>
        priv_socket (fst (run http (c, w) acts)) = Some s0
        \<and> socket (fst (run http (c, w) acts)) = Inr s0)"
proof -
  have m: "priv_socket (fst (run http st acts)) = Some s
        \<and> socket (fst (run http st acts)) = Inr s" if "priv_socket (fst st) = Some s" for st s
    using run_priv_socket_kept [OF that, of http acts] by (simp add: socket_def)
  obtain s where s: "priv_socket (fst (snd (initSocket c w))) = Some s"
    by (cases "priv_socket c") (simp_all add: initSocket_None initSocket_Some)
  show ?thesis
    using m [OF s] s m [of "(c, w)" s0] by auto
qed

theorem socket_assignment_monotone_witness:
  "priv_socket (fst (snd (initSocket (Skinport None None) empty_world))) = Some 0
   \<and> priv_socket (fst (run offline (snd (initSocket (Skinport None None) empty_world))
        [Signal 0 (ConnectError (Error ''refused'')), CallInitSocket,
         CallGetTransactions [], ReadSocket])) = Some 0
   \<and> socket (fst (run offline (snd (initSocket (Skinport None None) empty_world))
        [Signal 0 (ConnectError (Error ''refused'')), CallInitSocket,
         CallGetTransactions [], ReadSocket])) = Inr 0"
proof -
  have q: "priv_socket (fst (snd (initSocket (Skinport None None) empty_world))) = Some 0"
    by (simp add: initSocket_def new_promise_def io_def on_def Skinport_def empty_world_def)
  show ?thesis
    using socket_assignment_monotone [of "fst (snd (initSocket (Skinport None None) empty_world))"
        "snd (snd (initSocket (Skinport None None) empty_world))" offline
        "[Signal 0 (ConnectError (Error ''refused'')), CallInitSocket,
          CallGetTransactions [], ReadSocket]" 0] q
    by simp
qed

section \<open>The gateway and the marketplace operations\<close>

text \<open>
  Claim C5, amended. When both credentials are given and neither is the empty string, the
  \<^verbatim>\<open>Authorization\<close> header of the gateway is \<^verbatim>\<open>Basic\<close>, a space, and the base64
  encoding of \<^verbatim>\<open>clientId:clientSecret\<close>. It is computed in the constructor, and no history
  of the client changes the gateway.
\<close>

theorem authorization_header:
  "clientId \<noteq> [] \<Longrightarrow> clientSecret \<noteq> [] \<Longrightarrow>
     map_of (headers (api (Skinport (Some clientId) (Some clientSecret)))) ''Authorization''
       = Some (''Basic '' @ base64 (clientId @ '':'' @ clientSecret))
     \<and> api (fst (run http (Skinport (Some clientId) (Some clientSecret), w) acts))
       = api (Skinport (Some clientId) (Some clientSecret))"
  using run_api [of http "(Skinport (Some clientId) (Some clientSecret), w)" acts]
  by (simp add: authorization_Skinport authorization_def)

theorem authorization_header_witness:
  "''id'' \<noteq> [] \<and> ''secret'' \<noteq> []
   \<and> map_of (headers (api (Skinport (Some ''id'') (Some ''secret'')))) ''Authorization''
       = Some ''Basic aWQ6c2VjcmV0''
   \<and> map_of (headers (api (fst (run offline (Skinport (Some ''id'') (Some ''secret''), empty_world)
        [CallInitSocket, CallGetTransactions [], Signal 0 Connect])))) ''Authorization''
       = Some ''Basic aWQ6c2VjcmV0''"
proof -
  have b: "base64 ''id:secret'' = ''aWQ6c2VjcmV0''"
    by (simp add: b64_def b64chars_def)
  show ?thesis
    using authorization_header [of "''id''" "''secret''" offline empty_world
        "[CallInitSocket, CallGetTransactions [], Signal 0 Connect]"] b
    by simp
qed

text \<open>
  The claim as stated fails for a credential that is given and empty: the constructor tests
  truthiness, so with \<^verbatim>\<open>clientId = ""\<close> the header is the empty string.
\<close>

theorem authorization_header_counterexample:
  "map_of (headers (api (Skinport (Some '''') (Some ''secret'')))) ''Authorization'' = Some ''''
   \<and> map_of (headers (api (Skinport (Some '''') (Some ''secret'')))) ''Authorization''
       \<noteq> Some (''Basic '' @ base64 ('''' @ '':'' @ ''secret''))"
  by (simp add: authorization_Skinport authorization_def)

text \<open>
  Claim C6, amended. When a credential is missing or empty, the gateway is configured with
  an \<^verbatim>\<open>Authorization\<close> header whose value is the empty string, and every request the
  client issues, over every history, carries that header with that value.
\<close>

theorem unauthenticated_header:
  "\<not> (truthy clientId \<and> truthy clientSecret) \<Longrightarrow>
     map_of (headers (api (Skinport clientId clientSecret))) ''Authorization'' = Some ''''
     \<and> list_all (\<lambda>r. map_of (req_headers r) ''Authorization'' = Some '''')
         (requests (snd (run http (Skinport clientId clientSecret, empty_world) acts)))
     \<and> map (\<lambda>r. map_of (req_headers r) ''Authorization'')
         (requests (snd (api_get (api (Skinport clientId clientSecret)) http path ps w)))
       = map (\<lambda>r. map_of (req_headers r) ''Authorization'') (requests w) @ [Some '''']"
proof -
  assume h: "\<not> (truthy clientId \<and> truthy clientSecret)"
  have a: "map_of (headers (api (Skinport clientId clientSecret))) ''Authorization'' = Some ''''"
    using h by (simp add: authorization_Skinport authorization_def)
  have "list_all (\<lambda>r. req_headers r = headers (api (Skinport clientId clientSecret)))
         (requests (snd (run http (Skinport clientId clientSecret, empty_world) acts)))"
    using run_requests_headers [of "(Skinport clientId clientSecret, empty_world)" http acts]
    by (simp add: empty_world_def)
  then have b: "list_all (\<lambda>r. map_of (req_headers r) ''Authorization'' = Some '''')
         (requests (snd (run http (Skinport clientId clientSecret, empty_world) acts)))"
    using a by (simp add: list_all_iff)
  show ?thesis
    using a b by (simp add: snd_api_get get_request_def)
qed

theorem unauthenticated_header_witness:
  "\<not> (truthy None \<and> truthy (Some ''secret''))
   \<and> map (\<lambda>r. (req_url r, map_of (req_headers r) ''Authorization''))
       (requests (snd (run offline (Skinport None (Some ''secret''), empty_world)
          [CallGetItems None, CallInitSocket, CallGetOutOfStock []])))
     = [(''/items'', Some ''''), (''/sales/out-of-stock'', Some '''')]"
proof -
  have h: "\<not> (truthy None \<and> truthy (Some ''secret''))"
    by simp
  have r: "map req_url (requests (snd (run offline (Skinport None (Some ''secret''), empty_world)
          [CallGetItems None, CallInitSocket, CallGetOutOfStock []])))
     = [''/items'', ''/sales/out-of-stock'']"
    by code_simp
  have z: "map (\<lambda>r. (req_url r, map_of (req_headers r) ''Authorization'')) rs
             = map (\<lambda>u. (u, Some '''')) (map req_url rs)"
    if "list_all (\<lambda>r. map_of (req_headers r) ''Authorization'' = Some '''') rs"
    for rs :: "request list"
    using that by (induction rs) simp_all
  show ?thesis
    using z [of "requests (snd (run offline (Skinport None (Some ''secret''), empty_world)
          [CallGetItems None, CallInitSocket, CallGetOutOfStock []]))"]
      unauthenticated_header [OF h, of offline
        "[CallGetItems None, CallInitSocket, CallGetOutOfStock []]"] r
    by simp
qed

text \<open>
  The claim as stated fails: without credentials the request of \<^verbatim>\<open>getItems()\<close> has an
  \<^verbatim>\<open>Authorization\<close> entry (with the empty value) among its headers; the entry is not left
  out.
\<close>

theorem unauthenticated_header_counterexample:
  "map (\<lambda>r. map_of (req_headers r) ''Authorization'')
     (requests (snd (getItems (Skinport None None) offline None empty_world))) = [Some '''']
   \<and> \<not> list_all (\<lambda>r. map_of (req_headers r) ''Authorization'' = None)
       (requests (snd (getItems (Skinport None None) offline None empty_world)))"
  by (simp add: snd_ops get_request_def empty_world_def authorization_Skinport authorization_def)

text \<open>
  Claim C7, amended. Each operation issues exactly one request, a \<^verbatim>\<open>GET\<close> to its fixed
  path with the caller's options as parameters, and returns the \<^verbatim>\<open>data\<close> of the response
  (or the error of the request). \<^verbatim>\<open>getItems({})\<close>, like \<^verbatim>\<open>getItems()\<close>, requests \<^verbatim>\<open>/items\<close>
  with no parameter; \<^verbatim>\<open>getTransactions({page:1, limit:100, order:"desc"})\<close> requests
  \<^verbatim>\<open>/account/transactions?page=1&limit=100&order=desc\<close>. The request always has an
  \<^verbatim>\<open>Authorization\<close> header: the \<^verbatim>\<open>Basic\<close> credential when both credentials were given
  non-empty, the empty string otherwise.
\<close>

theorem marketplace_get:
  "getItems (Skinport clientId clientSecret) http (Some []) w
     = ((case http (get_request (api (Skinport clientId clientSecret)) ''/items'' []) of
           Inl e \<Rightarrow> Inl e | Inr resp \<Rightarrow> Inr (data resp)),
        w\<lparr>requests := requests w
            @ [get_request (api (Skinport clientId clientSecret)) ''/items'' []]\<rparr>)
   \<and> getItems (Skinport clientId clientSecret) http None w
     = getItems (Skinport clientId clientSecret) http (Some []) w
   \<and> getTransactions (Skinport clientId clientSecret) http ps w
     = ((case http (get_request (api (Skinport clientId clientSecret)) ''/account/transactions'' ps) of
           Inl e \<Rightarrow> Inl e | Inr resp \<Rightarrow> Inr (data resp)),
        w\<lparr>requests := requests w
            @ [get_request (api (Skinport clientId clientSecret)) ''/account/transactions'' ps]\<rparr>)
   \<and> getSalesHistory (Skinport clientId clientSecret) http ps w
     = ((case http (get_request (api (Skinport clientId clientSecret)) ''/sales/history'' ps) of
           Inl e \<Rightarrow> Inl e | Inr resp \<Rightarrow> Inr (data resp)),
        w\<lparr>requests := requests w
            @ [get_request (api (Skinport clientId clientSecret)) ''/sales/history'' ps]\<rparr>)
   \<and> getOutOfStock (Skinport clientId clientSecret) http ps w
     = ((case http (get_request (api (Skinport clientId clientSecret)) ''/sales/out-of-stock'' ps) of
           Inl e \<Rightarrow> Inl e | Inr resp \<Rightarrow> Inr (data resp)),
        w\<lparr>requests := requests w
            @ [get_request (api (Skinport clientId clientSecret)) ''/sales/out-of-stock'' ps]\<rparr>)
   \<and> req_method (get_request (api (Skinport clientId clientSecret)) path ps) = ''GET''
   \<and> req_url (get_request (api (Skinport clientId clientSecret)) path ps) = path
   \<and> req_params (get_request (api (Skinport clientId clientSecret)) path ps) = ps
   \<and> target (get_request (api (Skinport clientId clientSecret)) ''/items'' []) = ''/items''
   \<and> target (get_request (api (Skinport clientId clientSecret)) ''/account/transactions''
         [(''page'', Num 1), (''limit'', Num 100), (''order'', Str ''desc'')])
       = ''/account/transactions?page=1&limit=100&order=desc''
   \<and> map_of (req_headers (get_request (api (Skinport clientId clientSecret)) path ps))
         ''Authorization''
       = Some (case (clientId, clientSecret) of
                 (Some i, Some s) \<Rightarrow>
                   if i \<noteq> [] \<and> s \<noteq> [] then ''Basic '' @ base64 (i @ '':'' @ s) else ''''
               | _ \<Rightarrow> '''')"
proof -
  have ops: "getItems c http (Some []) w
       = ((case http (get_request (api c) ''/items'' []) of
             Inl e \<Rightarrow> Inl e | Inr resp \<Rightarrow> Inr (data resp)),
          w\<lparr>requests := requests w @ [get_request (api c) ''/items'' []]\<rparr>)"
    "getItems c http None w = getItems c http (Some []) w"
    "getTransactions c http ps w
       = ((case http (get_request (api c) ''/account/transactions'' ps) of
             Inl e \<Rightarrow> Inl e | Inr resp \<Rightarrow> Inr (data resp)),
          w\<lparr>requests := requests w @ [get_request (api c) ''/account/transactions'' ps]\<rparr>)"
    "getSalesHistory c http ps w
       = ((case http (get_request (api c) ''/sales/history'' ps) of
             Inl e \<Rightarrow> Inl e | Inr resp \<Rightarrow> Inr (data resp)),
          w\<lparr>requests := requests w @ [get_request (api c) ''/sales/history'' ps]\<rparr>)"
    "getOutOfStock c http ps w
       = ((case http (get_request (api c) ''/sales/out-of-stock'' ps) of
             Inl e \<Rightarrow> Inl e | Inr resp \<Rightarrow> Inr (data resp)),
          w\<lparr>requests := requests w @ [get_request (api c) ''/sales/out-of-stock'' ps]\<rparr>)"
    for c :: client
    by (simp_all add: getItems_def getTransactions_def getSalesHistory_def getOutOfStock_def
        await_data_def api_get_def Let_def split: sum.splits)
  have t1: "target (get_request g ''/items'' []) = ''/items''" for g
    by (simp add: target_def get_request_def buildURL_def serialize_def)
  have t2: "buildURL ''/account/transactions''
         [(''page'', Num 1), (''limit'', Num 100), (''order'', Str ''desc'')]
       = ''/account/transactions?page=1&limit=100&order=desc''"
    by code_simp
  have a: "map_of (req_headers (get_request (api (Skinport clientId clientSecret)) path ps))
         ''Authorization''
       = Some (case (clientId, clientSecret) of
                 (Some i, Some s) \<Rightarrow>
                   if i \<noteq> [] \<and> s \<noteq> [] then ''Basic '' @ base64 (i @ '':'' @ s) else ''''
               | _ \<Rightarrow> '''')"
    by (cases clientId; cases clientSecret)
       (simp_all add: get_request_def authorization_Skinport authorization_def)
  have f: "req_method (get_request g path ps) = ''GET''"
    "req_url (get_request g path ps) = path"
    "req_params (get_request g path ps) = ps" for g path ps
    by (simp_all add: get_request_def)
  have t2': "target (get_request g ''/account/transactions''
         [(''page'', Num 1), (''limit'', Num 100), (''order'', Str ''desc'')])
       = ''/account/transactions?page=1&limit=100&order=desc''" for g
    using t2 by (simp add: target_def f)
  show ?thesis
    using ops [of "Skinport clientId clientSecret"] t1 t2' a f
    by simp
qed

theorem marketplace_get_witness:
  "fst (getItems (Skinport (Some ''id'') (Some ''secret'')) echo (Some []) empty_world)
     = Inr ''/items''
   \<and> map (\<lambda>r. (req_method r, target r, map_of (req_headers r) ''Authorization''))
       (requests (snd (getTransactions (Skinport (Some ''id'') (Some ''secret'')) echo
          [(''page'', Num 1), (''limit'', Num 100), (''order'', Str ''desc'')] empty_world)))
     = [(''GET'', ''/account/transactions?page=1&limit=100&order=desc'',
         Some ''Basic aWQ6c2VjcmV0'')]"
proof -
  have b: "base64 ''id:secret'' = ''aWQ6c2VjcmV0''"
    by (simp add: b64_def b64chars_def)
  show ?thesis
    using marketplace_get [of "Some ''id''" "Some ''secret''" echo empty_world
        "[(''page'', Num 1), (''limit'', Num 100), (''order'', Str ''desc'')]"
        "''/account/transactions''"] b
    by (simp add: echo_def empty_world_def get_request_def)
qed

text \<open>
  The claim as stated fails in its last part: for a client built without credentials the
  request of \<^verbatim>\<open>getTransactions\<close> still has the \<^verbatim>\<open>Authorization\<close> header, with the empty
  value.
\<close>

theorem marketplace_get_counterexample:
  "map (\<lambda>r. (target r, map_of (req_headers r) ''Authorization''))
     (requests (snd (getTransactions (Skinport None None) offline
        [(''page'', Num 1), (''limit'', Num 100), (''order'', Str ''desc'')] empty_world)))
     = [(''/account/transactions?page=1&limit=100&order=desc'', Some '''')]
   \<and> map_of (req_headers (last (requests (snd (getTransactions (Skinport None None) offline
        [(''page'', Num 1), (''limit'', Num 100), (''order'', Str ''desc'')] empty_world)))))
       ''Authorization'' \<noteq> None"
  by code_simp

text \<open>
  Claim C8, amended. No operation applies a default: the parameters of the request are the
  caller's options as given (the empty object for \<^verbatim>\<open>getItems()\<close>), so a key the caller
  leaves out is not among them. The gateway adds none either.
\<close>

theorem options_forwarded_verbatim:
  "map req_params (requests (snd (getItems c http (Some ps) w)))
     = map req_params (requests w) @ [ps]
   \<and> map req_params (requests (snd (getItems c http None w)))
     = map req_params (requests w) @ [[]]
   \<and> map req_params (requests (snd (getSalesHistory c http ps w)))
     = map req_params (requests w) @ [ps]
   \<and> map req_params (requests (snd (getOutOfStock c http ps w)))
     = map req_params (requests w) @ [ps]
   \<and> map req_params (requests (snd (getTransactions c http ps w)))
     = map req_params (requests w) @ [ps]
   \<and> map_of (req_params (last (requests (snd (getItems c http (Some ps) w))))) k = map_of ps k
   \<and> map_of (req_params (last (requests (snd (getSalesHistory c http ps w))))) k = map_of ps k"
proof -
  have sent: "requests (snd (await_data (api_get (api c) http path qs w)))
                = requests w @ [get_request (api c) path qs]" for path qs
    by (simp add: snd_await_data snd_api_get)
  have kept: "req_params (get_request (api c) path qs) = qs" for path qs
    by (simp add: get_request_def)
  have items: "requests (snd (getItems c http (Some ps) w))
                 = requests w @ [get_request (api c) ''/items'' ps]"
    and items0: "requests (snd (getItems c http None w))
                 = requests w @ [get_request (api c) ''/items'' []]"
    and history: "requests (snd (getSalesHistory c http ps w))
                 = requests w @ [get_request (api c) ''/sales/history'' ps]"
    and stock: "requests (snd (getOutOfStock c http ps w))
                 = requests w @ [get_request (api c) ''/sales/out-of-stock'' ps]"
    and txns: "requests (snd (getTransactions c http ps w))
                 = requests w @ [get_request (api c) ''/account/transactions'' ps]"
    by (simp_all add: getItems_def getSalesHistory_def getOutOfStock_def getTransactions_def sent)
  show ?thesis
    by (simp add: items items0 history stock txns kept)
qed

theorem options_forwarded_verbatim_witness:
  "map (\<lambda>r. (target r, map_of (req_params r) ''app_id'', map_of (req_params r) ''currency''))
     (requests (snd (getItems (Skinport None None) offline
        (Some [(''tradable'', Bool True)]) empty_world)))
     = [(''/items?tradable=true'', None, None)]"
proof -
  have t: "buildURL ''/items'' [(''tradable'', Bool True)] = ''/items?tradable=true''"
    by code_simp
  show ?thesis
    using options_forwarded_verbatim [of "Skinport None None" offline
        "[(''tradable'', Bool True)]" empty_world "''app_id''"] t
    by (simp add: empty_world_def target_def snd_ops get_request_def)
qed

text \<open>
  The claim as stated fails: \<^verbatim>\<open>getItems({})\<close> and \<^verbatim>\<open>getSalesHistory\<close> without
  \<^verbatim>\<open>app_id\<close> and \<^verbatim>\<open>currency\<close> issue requests with neither parameter, not with
  \<^verbatim>\<open>app_id=730\<close> and \<^verbatim>\<open>currency=EUR\<close>.
\<close>

theorem options_forwarded_verbatim_counterexample:
  "map (\<lambda>r. (req_url r, map_of (req_params r) ''app_id'', map_of (req_params r) ''currency''))
     (requests (snd (getItems (Skinport None None) offline (Some []) empty_world)))
     = [(''/items'', None, None)]
   \<and> map (\<lambda>r. (req_url r, map_of (req_params r) ''app_id'', map_of (req_params r) ''currency''))
     (requests (snd (getSalesHistory (Skinport None None) offline
        [(''market_hash_name'', Str ''Glove Case'')] empty_world)))
     = [(''/sales/history'', None, None)]
   \<and> map_of (req_params (last (requests (snd (getItems (Skinport None None) offline (Some [])
        empty_world))))) ''app_id'' \<noteq> Some (Num 730)
   \<and> map_of (req_params (last (requests (snd (getItems (Skinport None None) offline (Some [])
        empty_world))))) ''currency'' \<noteq> Some (Str ''EUR'')"
  by (simp add: empty_world_def snd_ops get_request_def)

section \<open>The client's invariant\<close>

text \<open>
  Claim C9, amended. After every history of a constructed client the gateway is the one
  the constructor built, and the field holds a connection if and only if \<^verbatim>\<open>initSocket\<close>
  has been called in that history, whatever the handshake's outcome.
\<close>

theorem channel_present_iff_invoked:
  "api (fst (run http (Skinport clientId clientSecret, w) acts))
     = api (Skinport clientId clientSecret)
   \<and> (priv_socket (fst (run http (Skinport clientId clientSecret, w) acts)) \<noteq> None)
     = (CallInitSocket \<in> set acts)"
  using run_api [of http "(Skinport clientId clientSecret, w)" acts]
    run_priv_socket_None [of http "(Skinport clientId clientSecret, w)" acts]
  by (simp add: Skinport_def)

theorem channel_present_iff_invoked_witness:
  "priv_socket (fst (run offline (Skinport None None, empty_world)
      [CallGetItems None, CallInitSocket, Signal 0 (ConnectError (Error ''timeout''))]))
     \<noteq> None
   \<and> priv_socket (fst (run offline (Skinport None None, empty_world)
      [CallGetItems None, Signal 0 Connect, ReadSocket])) = None"
  using channel_present_iff_invoked [of offline None None empty_world
      "[CallGetItems None, CallInitSocket, Signal 0 (ConnectError (Error ''timeout''))]"]
    channel_present_iff_invoked [of offline None None empty_world
      "[CallGetItems None, Signal 0 Connect, ReadSocket]"]
  by simp

text \<open>
  The claim as stated fails after a failed handshake: \<^verbatim>\<open>initSocket\<close> was called, the
  transport signalled \<^verbatim>\<open>connect_error\<close>, the promise is rejected and nothing retried, yet
  the field still holds the connection.
\<close>

theorem channel_present_iff_invoked_counterexample:
  "priv_socket (fst (run offline (Skinport None None, empty_world)
      [CallInitSocket, Signal 0 (ConnectError (Error ''timeout''))])) = Some 0
   \<and> promise_of (snd (run offline (Skinport None None, empty_world)
      [CallInitSocket, Signal 0 (ConnectError (Error ''timeout''))])) 0
     = Some (Rejected (Error ''timeout''))
   \<and> \<not> ((priv_socket (fst (run offline (Skinport None None, empty_world)
            [CallInitSocket, Signal 0 (ConnectError (Error ''timeout''))])) \<noteq> None)
        = (CallInitSocket \<in> set [CallInitSocket, Signal 0 (ConnectError (Error ''timeout''))]
           \<and> promise_of (snd (run offline (Skinport None None, empty_world)
                [CallInitSocket, Signal 0 (ConnectError (Error ''timeout''))])) 0
              \<noteq> Some (Rejected (Error ''timeout''))))"
proof -
  have r: "run offline (Skinport None None, empty_world)
      [CallInitSocket, Signal 0 (ConnectError (Error ''timeout''))]
    = ((Skinport None None)\<lparr>priv_socket := Some 0\<rparr>,
       \<lparr>sockets = [\<lparr>sock_url = ''wss://skinport.com'', sock_opts = skinport_opts,
                    listeners = [(''connect'', OnConnect 0),
                                 (''connect_error'', OnConnectError 0)]\<rparr>],
        promises = [Rejected (Error ''timeout'')],
        console = [ErrorLog ''Connection Error:'' (Error ''timeout'')],
        requests = []\<rparr>)"
    by (simp add: run_def initSocket_def new_promise_def io_def on_def Skinport_def
        empty_world_def emit_def reject_def settle_def)
  show ?thesis
    by (simp add: r promise_of_def)
qed

end
